theory Spec2Isabelle
  imports
    Main
    "HOL-Library.AList"
    "HOL-Library.Char_ord"
    "HOL-Library.List_Lexorder"
    "HOL-Library.Product_Lexorder"
    "HOL-Library.Multiset"
begin

section \<open>Python values used by the discovery code\<close>

text \<open>
  The exceptions the modelled code can raise. A function that can raise returns
  \<open>error + 'a\<close>, with \<open>Inl\<close> for the exception.
\<close>

datatype error = AttributeError | KeyError | TypeError

text \<open>
  \<open>str.lower()\<close> on the ASCII letters; every other character is left as it is
  (catalog identifiers and type names are ASCII).
\<close>

definition lower_char :: "char \<Rightarrow> char" where
  "lower_char c =
     (case map_of (zip ''ABCDEFGHIJKLMNOPQRSTUVWXYZ'' ''abcdefghijklmnopqrstuvwxyz'') c of
        None \<Rightarrow> c
      | Some d \<Rightarrow> d)"

definition lower :: "string \<Rightarrow> string" where
  "lower s = map lower_char s"

text \<open>
  Numbers stored in a schema. Python's \<open>10 ** e\<close> is an exact \<open>int\<close> for
  \<open>e \<ge> 0\<close> and the float \<open>float(10) ** float(e)\<close> for \<open>e < 0\<close>. The float is
  kept symbolically as \<open>FloatPow 10 e\<close> (and \<open>FloatNeg\<close> for unary minus), so no
  rounding is assumed about it.
\<close>

datatype pyfloat = FloatPow int int | FloatNeg pyfloat

datatype pynum = PyInt int | PyFloat pyfloat

definition pow10 :: "int \<Rightarrow> pynum" where
  "pow10 e = (if 0 \<le> e then PyInt (10 ^ nat e) else PyFloat (FloatPow 10 e))"

fun py_neg :: "pynum \<Rightarrow> pynum" where
  "py_neg (PyInt i) = PyInt (- i)"
| "py_neg (PyFloat f) = PyFloat (FloatNeg f)"

section \<open>Data model (discovery/__init__.py, singer.catalog)\<close>

text \<open>
  \<open>Table\<close> and \<open>Column\<close> are namedtuples that share the fields \<open>table_schema\<close>
  and \<open>table_name\<close>; \<open>_table_id\<close> is applied to both. The shared fields are a
  record that both extend. The three numeric fields of a column come from nullable
  catalog columns, so they are \<open>int option\<close> (\<open>None\<close> is Python's \<open>None\<close>).
\<close>

record TableId =
  table_schema :: string
  table_name :: string

record Table = TableId +
  table_type :: string

record Column = TableId +
  column_name :: string
  data_type :: string
  character_maximum_length :: "int option"
  numeric_precision :: "int option"
  numeric_scale :: "int option"

text \<open>
  \<open>singer.catalog.Schema\<close>, with the attributes this code sets; every attribute
  defaults to \<open>None\<close>. \<open>type\<close> is either a string (\<open>"object"\<close>) or a list of
  strings. The record is polymorphic in what \<open>properties\<close> holds: a column's
  fragment has none, a table's schema maps column names to fragments (a dict,
  kept as an association list in insertion order).
\<close>

datatype pytype = TStr string | TList "string list"

record 'p Schema =
  type :: "pytype option"
  properties :: "'p option"
  inclusion :: "string option"
  description :: "string option"
  minimum :: "pynum option"
  maximum :: "pynum option"
  exclusiveMinimum :: "bool option"
  exclusiveMaximum :: "bool option"
  multipleOf :: "pynum option"
  maxLength :: "int option"
  format :: "string option"

type_synonym fragment = "unit Schema"

type_synonym object_schema = "(string \<times> fragment) list Schema"

definition Schema_init :: "'p Schema" where
  "Schema_init =
     \<lparr>type = None, properties = None, inclusion = None, description = None,
      minimum = None, maximum = None, exclusiveMinimum = None, exclusiveMaximum = None,
      multipleOf = None, maxLength = None, format = None\<rparr>"

section \<open>Type Mapper (discovery/schemas.py)\<close>

definition BYTES_FOR_INTEGER_TYPE :: "(string \<times> int) list" where
  "BYTES_FOR_INTEGER_TYPE = [(''smallint'', 2), (''integer'', 4), (''bigint'', 8)]"

definition FLOAT_TYPES :: "string set" where
  "FLOAT_TYPES = {''float'', ''decfloat''}"

definition DECIMAL_TYPES :: "string set" where
  "DECIMAL_TYPES = {''decimal'', ''numeric''}"

definition STRING_TYPES :: "string set" where
  "STRING_TYPES = {''char'', ''varchar''}"

definition DATETIME_TYPES :: "string set" where
  "DATETIME_TYPES = {''date'', ''timestmp'', ''time''}"

text \<open>
  \<open>_for_column(col, pk_columns)\<close>. An arithmetic operation or an ordering
  comparison with \<open>None\<close> raises \<open>TypeError\<close>; \<open>None == 0\<close> is just false, so a
  missing scale takes the \<open>else\<close> branch and fails at \<open>0 - col.numeric_scale\<close>.
\<close>

definition for_column :: "Column \<Rightarrow> string list \<Rightarrow> error + fragment" where
  "for_column col pk_columns =
     (let dt = lower (data_type col);
          incl = (if lower (column_name col) \<in> set (map lower pk_columns)
                  then ''automatic'' else ''available'');
          result = Schema_init\<lparr>inclusion := Some incl\<rparr>
      in case map_of BYTES_FOR_INTEGER_TYPE dt of
           Some bytes \<Rightarrow>
             (let bits = bytes * 8
              in Inr (result\<lparr>type := Some (TList [''null'', ''integer'']),
                             minimum := Some (PyInt (0 - 2 ^ nat (bits - 1))),
                             maximum := Some (PyInt (2 ^ nat (bits - 1) - 1))\<rparr>))
         | None \<Rightarrow>
             if dt \<in> FLOAT_TYPES then
               Inr (result\<lparr>type := Some (TList [''null'', ''number''])\<rparr>)
             else if dt \<in> DECIMAL_TYPES then
               (case numeric_scale col of
                  None \<Rightarrow> Inl TypeError
                | Some s \<Rightarrow>
                    (let typed =
                       (if s = 0 then result\<lparr>type := Some (TList [''null'', ''integer''])\<rparr>
                        else result\<lparr>type := Some (TList [''null'', ''number'']),
                                    multipleOf := Some (pow10 (0 - s))\<rparr>)
                     in case numeric_precision col of
                          None \<Rightarrow> Inl TypeError
                        | Some p \<Rightarrow>
                            Inr (typed\<lparr>exclusiveMaximum := Some True,
                                       maximum := Some (pow10 (p - s)),
                                       exclusiveMinimum := Some True,
                                       minimum := Some (py_neg (pow10 (p - s)))\<rparr>)))
             else if dt \<in> STRING_TYPES then
               (case character_maximum_length col of
                  None \<Rightarrow> Inl TypeError
                | Some n \<Rightarrow>
                    (let typed = result\<lparr>type := Some (TList [''null'', ''string''])\<rparr>
                     in Inr (if n > 0 then typed\<lparr>maxLength := Some n\<rparr> else typed)))
             else if dt \<in> DATETIME_TYPES then
               Inr (result\<lparr>type := Some (TList [''null'', ''string'']),
                           format := Some ''date-time''\<rparr>)
             else
               Inr (Schema_init\<lparr>inclusion := Some ''unsupported'',
                                description := Some (''Unsupported data type '' @ dt)\<rparr>))"

text \<open>
  \<open>generate(columns, pk_columns)\<close>: the dict comprehension maps the columns in
  order; a repeated column name keeps its first position and takes the last value,
  and the first exception ends the comprehension.
\<close>

fun generate_properties ::
  "Column list \<Rightarrow> string list \<Rightarrow> (string \<times> fragment) list \<Rightarrow> error + (string \<times> fragment) list"
where
  "generate_properties [] pk_columns acc = Inr acc"
| "generate_properties (c # cs) pk_columns acc =
     (case for_column c pk_columns of
        Inl e \<Rightarrow> Inl e
      | Inr frag \<Rightarrow> generate_properties cs pk_columns (AList.update (column_name c) frag acc))"

definition generate :: "Column list \<Rightarrow> string list \<Rightarrow> error + object_schema" where
  "generate columns pk_columns =
     (case generate_properties columns pk_columns [] of
        Inl e \<Rightarrow> Inl e
      | Inr props \<Rightarrow> Inr (Schema_init\<lparr>type := Some (TStr ''object''), properties := Some props\<rparr>))"

section \<open>Reconciler (discovery/__init__.py)\<close>

text \<open>
  The connection configuration only reaches the three catalog queries. A
  configuration is modelled by what the three queries yield for it: finite
  sequences of rows, in the order the cursor delivers them.
\<close>

record config =
  query_tables :: "(string \<times> string \<times> string) list"
  query_columns ::
    "(string \<times> string \<times> string \<times> string \<times> int option \<times> int option \<times> int option) list"
  query_primary_keys :: "(string \<times> string \<times> string \<times> int) list"

type_synonym table_key = "string \<times> string"

definition table_id :: "'a TableId_scheme \<Rightarrow> table_key" where
  "table_id t = (table_schema t, table_name t)"

fun mk_Table :: "string \<times> string \<times> string \<Rightarrow> Table" where
  "mk_Table (s, n, ty) = \<lparr>table_schema = s, table_name = n, table_type = ty\<rparr>"

fun mk_Column ::
  "string \<times> string \<times> string \<times> string \<times> int option \<times> int option \<times> int option \<Rightarrow> Column"
where
  "mk_Column (s, n, c, dt, len, prec, scale) =
     \<lparr>table_schema = s, table_name = n, column_name = c, data_type = dt,
      character_maximum_length = len, numeric_precision = prec, numeric_scale = scale\<rparr>"

text \<open>
  \<open>_find_tables\<close>: a dict from table id to \<open>Table\<close>; a later row with the same
  id replaces the earlier one.
\<close>

definition find_tables :: "config \<Rightarrow> (table_key \<times> Table) list" where
  "find_tables cfg =
     foldl (\<lambda>d t. AList.update (table_id t) t d) [] (map mk_Table (query_tables cfg))"

definition find_columns :: "config \<Rightarrow> (table_key \<times> Table) list \<Rightarrow> Column list" where
  "find_columns cfg tables =
     filter (\<lambda>c. map_of tables (table_schema c, table_name c) \<noteq> None)
            (map mk_Column (query_columns cfg))"

text \<open>
  \<open>_find_primary_keys\<close>: the loop collects, per known table, the pairs
  (ordinal position, column name) in row order; creating the empty list for a new
  table and appending to it are one step here. The result sorts each list of
  pairs and keeps the names. Python compares tuples lexicographically and strings
  character by character, which is the order of \<open>int \<times> string\<close> here; under a
  total order \<open>sorted\<close> has one possible result, the one \<open>sort\<close> computes.
\<close>

fun collect_keys ::
  "(string \<times> string \<times> string \<times> int) list \<Rightarrow> (table_key \<times> Table) list \<Rightarrow>
   (table_key \<times> (int \<times> string) list) list \<Rightarrow> (table_key \<times> (int \<times> string) list) list"
where
  "collect_keys [] tables keys = keys"
| "collect_keys ((s, n, cname, ordinal_pos) # results) tables keys =
     (if map_of tables (s, n) = None then collect_keys results tables keys
      else
        (case map_of keys (s, n) of
           None \<Rightarrow>
             collect_keys results tables (AList.update (s, n) [(ordinal_pos, cname)] keys)
         | Some v \<Rightarrow>
             collect_keys results tables
               (AList.update (s, n) (v @ [(ordinal_pos, cname)]) keys)))"

definition find_primary_keys ::
  "config \<Rightarrow> (table_key \<times> Table) list \<Rightarrow> (table_key \<times> string list) list"
where
  "find_primary_keys cfg tables =
     map (\<lambda>(k, v). (k, map snd (sort v))) (collect_keys (query_primary_keys cfg) tables [])"

section \<open>Entry Assembler (discovery/__init__.py)\<close>

text \<open>
  \<open>singer.metadata\<close>: compiled metadata is a dict from breadcrumb (a tuple of
  strings) to a dict of values. \<open>metadata.write\<close> (here \<open>md_write\<close>) adds one
  key to the breadcrumb's dict, creating the dict when the breadcrumb is new, and
  \<open>to_list\<close> lists the breadcrumbs with their dicts in insertion order. The
  values written here are never \<open>None\<close>, the one case in which \<open>write\<close> raises.
\<close>

datatype mdvalue = MBool bool | MStr string

type_synonym breadcrumb = "string list"

type_synonym mdata = "(breadcrumb \<times> (string \<times> mdvalue) list) list"

definition md_write :: "mdata \<Rightarrow> breadcrumb \<Rightarrow> string \<Rightarrow> mdvalue \<Rightarrow> mdata" where
  "md_write compiled_metadata bc k val =
     (case map_of compiled_metadata bc of
        Some d \<Rightarrow> AList.update bc (AList.update k val d) compiled_metadata
      | None \<Rightarrow> AList.update bc [(k, val)] compiled_metadata)"

definition to_list :: "mdata \<Rightarrow> (breadcrumb \<times> (string \<times> mdvalue) list) list" where
  "to_list compiled_metadata = compiled_metadata"

text \<open>
  Field access on a \<open>Column\<close> by name: the namedtuple declares exactly seven
  fields, and a name that is none of them (tuple methods apart, which this code
  does not use) raises \<open>AttributeError\<close>. \<open>.lower()\<close> exists on strings only.
\<close>

datatype pyval = PyStr string | PyOptInt "int option"

definition Column_getattr :: "Column \<Rightarrow> string \<Rightarrow> error + pyval" where
  "Column_getattr col name =
     (if name = ''table_schema'' then Inr (PyStr (table_schema col))
      else if name = ''table_name'' then Inr (PyStr (table_name col))
      else if name = ''column_name'' then Inr (PyStr (column_name col))
      else if name = ''data_type'' then Inr (PyStr (data_type col))
      else if name = ''character_maximum_length'' then Inr (PyOptInt (character_maximum_length col))
      else if name = ''numeric_precision'' then Inr (PyOptInt (numeric_precision col))
      else if name = ''numeric_scale'' then Inr (PyOptInt (numeric_scale col))
      else Inl AttributeError)"

fun py_lower :: "pyval \<Rightarrow> error + string" where
  "py_lower (PyStr s) = Inr (lower s)"
| "py_lower (PyOptInt v) = Inl AttributeError"

text \<open>
  \<open>_create_column_metadata(cols, schema)\<close>. The loop body reads
  \<open>schema.properties[col.column_name]\<close>, writes the column's
  selected-by-default, and then evaluates \<open>col.column_type.lower()\<close> for the
  sql-datatype entry.
\<close>

fun column_metadata_loop :: "Column list \<Rightarrow> object_schema \<Rightarrow> mdata \<Rightarrow> error + mdata" where
  "column_metadata_loop [] schema mdata = Inr mdata"
| "column_metadata_loop (col # cols) schema mdata =
     (case properties schema of
        None \<Rightarrow> Inl TypeError
      | Some props \<Rightarrow>
          (case map_of props (column_name col) of
             None \<Rightarrow> Inl KeyError
           | Some col_schema \<Rightarrow>
               (let mdata1 = md_write mdata [''properties'', column_name col] ''selected-by-default''
                               (MBool (inclusion col_schema \<noteq> Some ''unsupported''))
                in case Column_getattr col ''column_type'' of
                     Inl e \<Rightarrow> Inl e
                   | Inr v \<Rightarrow>
                       (case py_lower v of
                          Inl e \<Rightarrow> Inl e
                        | Inr tag \<Rightarrow>
                            column_metadata_loop cols schema
                              (md_write mdata1 [''properties'', column_name col] ''sql-datatype''
                                 (MStr tag))))))"

definition create_column_metadata ::
  "Column list \<Rightarrow> object_schema \<Rightarrow> error + (breadcrumb \<times> (string \<times> mdvalue) list) list"
where
  "create_column_metadata cols schema =
     (case column_metadata_loop cols schema (md_write [] [] ''selected-by-default'' (MBool False)) of
        Inl e \<Rightarrow> Inl e
      | Inr mdata \<Rightarrow> Inr (to_list mdata))"

text \<open>
  \<open>singer.catalog.CatalogEntry\<close>, with the attributes this code sets;
  \<open>key_properties\<close> and \<open>is_view\<close> default to \<open>None\<close>.
\<close>

record CatalogEntry =
  database :: string
  table :: string
  stream :: string
  metadata :: "(breadcrumb \<times> (string \<times> mdvalue) list) list"
  tap_stream_id :: string
  schema :: object_schema
  key_properties :: "string list option"
  is_view :: "bool option"

definition known_types :: "(string \<times> string) list" where
  "known_types =
     [(''A'', ''Alias''), (''L'', ''Logical file''),
      (''M'', ''Materialized query table''), (''P'', ''Physical file'')]"

definition update_entry_for_table_type :: "CatalogEntry \<Rightarrow> string \<Rightarrow> CatalogEntry" where
  "update_entry_for_table_type catalog_entry ty =
     (let entry1 = catalog_entry\<lparr>is_view := Some (ty = ''V'')\<rparr>
      in if ty \<notin> set [''T'', ''V''] then
           (let hint = (case map_of known_types ty of None \<Rightarrow> ''Unknown'' | Some h \<Rightarrow> h);
                err = ''Unsupported table type '' @ ty @ '' ('' @ hint @ '')''
            in entry1\<lparr>schema := (schema entry1)\<lparr>inclusion := Some ''unsupported'',
                                                description := Some err\<rparr>\<rparr>)
         else entry1)"

text \<open>
  \<open>itertools.groupby(iterable, key)\<close>: one group per maximal run of consecutive
  elements with the same key, in order.
\<close>

function groupby :: "('a \<Rightarrow> 'k) \<Rightarrow> 'a list \<Rightarrow> ('k \<times> 'a list) list" where
  "groupby key [] = []"
| "groupby key (x # xs) =
     (key x, x # takeWhile (\<lambda>y. key y = key x) xs) #
     groupby key (dropWhile (\<lambda>y. key y = key x) xs)"
  by pat_completeness auto
termination
  by (relation "measure (\<lambda>(key, xs). length xs)")
     (auto simp: length_dropWhile_le less_Suc_eq_le)

text \<open>
  \<open>discover(config)\<close>. The body of the \<open>for\<close> loop over the groups is
  \<open>discover_loop\<close>; the function that builds an entry's metadata is a parameter
  \<open>md\<close> of the loop, and \<open>discover\<close> runs the loop with
  \<open>_create_column_metadata\<close>. \<open>Catalog(entries)\<close> is the list of entries.
\<close>

fun discover_loop ::
  "(Column list \<Rightarrow> object_schema \<Rightarrow> error + (breadcrumb \<times> (string \<times> mdvalue) list) list) \<Rightarrow>
   (table_key \<times> Table) list \<Rightarrow> (table_key \<times> string list) list \<Rightarrow>
   (table_key \<times> Column list) list \<Rightarrow> CatalogEntry list \<Rightarrow> error + CatalogEntry list"
where
  "discover_loop md tables pks [] entries = Inr entries"
| "discover_loop md tables pks ((tid, cols) # groups) entries =
     (let pk_columns = (case map_of pks tid of None \<Rightarrow> [] | Some ks \<Rightarrow> ks)
      in case generate cols pk_columns of
           Inl e \<Rightarrow> Inl e
         | Inr sch \<Rightarrow>
             (case md cols sch of
                Inl e \<Rightarrow> Inl e
              | Inr mdlist \<Rightarrow>
                  (let entry = \<lparr>database = fst tid, table = snd tid, stream = snd tid,
                                metadata = mdlist,
                                tap_stream_id = fst tid @ ''-'' @ snd tid,
                                schema = sch, key_properties = None, is_view = None\<rparr>;
                       entry1 = (case map_of pks tid of
                                   None \<Rightarrow> entry
                                 | Some ks \<Rightarrow> entry\<lparr>key_properties := Some ks\<rparr>)
                   in case map_of tables tid of
                        None \<Rightarrow> Inl KeyError
                      | Some t \<Rightarrow>
                          discover_loop md tables pks groups
                            (entries @ [update_entry_for_table_type entry1 (table_type t)]))))"

definition discover_with ::
  "(Column list \<Rightarrow> object_schema \<Rightarrow> error + (breadcrumb \<times> (string \<times> mdvalue) list) list) \<Rightarrow>
   config \<Rightarrow> error + CatalogEntry list"
where
  "discover_with md cfg =
     (let tables = find_tables cfg;
          columns = find_columns cfg tables;
          pks = find_primary_keys cfg tables
      in discover_loop md tables pks (groupby table_id columns) [])"

definition discover :: "config \<Rightarrow> error + CatalogEntry list" where
  "discover cfg = discover_with create_column_metadata cfg"

section \<open>Notions used to state the properties\<close>



definition pk_inclusion :: "Column \<Rightarrow> string list \<Rightarrow> string" where
  "pk_inclusion col pk_columns =
     (if lower (column_name col) \<in> set (map lower pk_columns) then ''automatic'' else ''available'')"

text \<open>
  The (ordinal position, column name) pairs of the primary-key rows of table \<open>k\<close>,
  in row order.
\<close>

definition key_rows :: "(string \<times> string \<times> string \<times> int) list \<Rightarrow> table_key \<Rightarrow> (int \<times> string) list" where
  "key_rows rows k =
     map (\<lambda>(s, n, c, pos). (pos, c)) (filter (\<lambda>(s, n, c, pos). (s, n) = k) rows)"


section \<open>The Type Mapper, family by family\<close>

lemmas type_tables =
  BYTES_FOR_INTEGER_TYPE_def FLOAT_TYPES_def DECIMAL_TYPES_def STRING_TYPES_def
  DATETIME_TYPES_def


lemma for_column_int:
  assumes "map_of BYTES_FOR_INTEGER_TYPE (lower (data_type col)) = Some bytes"
  shows "for_column col pk_columns =
     Inr (Schema_init\<lparr>inclusion := Some (pk_inclusion col pk_columns),
           type := Some (TList [''null'', ''integer'']),
           minimum := Some (PyInt (0 - 2 ^ nat (bytes * 8 - 1))),
           maximum := Some (PyInt (2 ^ nat (bytes * 8 - 1) - 1))\<rparr>)"
  unfolding for_column_def Let_def pk_inclusion_def using assms by simp



lemma for_column_string_eq:
  assumes "lower (data_type col) \<in> STRING_TYPES"
  shows "for_column col pk_columns =
     (case character_maximum_length col of
        None \<Rightarrow> Inl TypeError
      | Some n \<Rightarrow>
          Inr (if n > 0
               then Schema_init\<lparr>inclusion := Some (pk_inclusion col pk_columns),
                      type := Some (TList [''null'', ''string'']), maxLength := Some n\<rparr>
               else Schema_init\<lparr>inclusion := Some (pk_inclusion col pk_columns),
                      type := Some (TList [''null'', ''string''])\<rparr>))"
proof -
  from assms have "lower (data_type col) = ''char'' \<or> lower (data_type col) = ''varchar''"
    by (simp add: STRING_TYPES_def)
  then show ?thesis
  proof
    assume "lower (data_type col) = ''char''"
    then show ?thesis
      unfolding for_column_def Let_def pk_inclusion_def by (simp add: type_tables)
  next
    assume "lower (data_type col) = ''varchar''"
    then show ?thesis
      unfolding for_column_def Let_def pk_inclusion_def by (simp add: type_tables)
  qed
qed



lemma bytes_lookup:
  "(dt, bytes) \<in> {(''smallint'', 2), (''integer'', 4), (''bigint'', 8)} \<Longrightarrow>
   map_of BYTES_FOR_INTEGER_TYPE dt = Some bytes"
  unfolding BYTES_FOR_INTEGER_TYPE_def by auto





section \<open>Claims about the Type Mapper\<close>

text \<open>
  C3. For a column whose lower-cased native type is smallint, integer or bigint
  (2, 4 and 8 bytes), \<open>_for_column\<close> returns a fragment of type
  \<open>["null", "integer"]\<close> with minimum \<open>-2^(8*bytes-1)\<close> and maximum
  \<open>2^(8*bytes-1) - 1\<close>, so that maximum = -minimum - 1.
\<close>

theorem for_column_integer_bounds:
  assumes "(lower (data_type col), bytes) \<in> {(''smallint'', 2), (''integer'', 4), (''bigint'', 8)}"
  shows "\<exists>frag lo hi. for_column col pk_columns = Inr frag \<and>
           type frag = Some (TList [''null'', ''integer'']) \<and>
           minimum frag = Some (PyInt lo) \<and> maximum frag = Some (PyInt hi) \<and>
           lo = - (2 ^ nat (8 * bytes - 1)) \<and> hi = 2 ^ nat (8 * bytes - 1) - 1 \<and>
           hi = - lo - 1"
  by (simp add: for_column_int[OF bytes_lookup[OF assms]] mult.commute Schema_init_def)

text \<open>
  Scenario 1 of the specification: a smallint key column \<open>ID\<close> gets the bounds
  -32768 and 32767.
\<close>

theorem for_column_integer_bounds_witness:
  "\<exists>frag. for_column (mk_Column (''S'', ''T'', ''ID'', ''SMALLINT'', None, Some 5, Some 0)) [''ID''] = Inr frag \<and>
      type frag = Some (TList [''null'', ''integer'']) \<and>
      minimum frag = Some (PyInt (- 32768)) \<and> maximum frag = Some (PyInt 32767)"
  using for_column_integer_bounds
    [of "mk_Column (''S'', ''T'', ''ID'', ''SMALLINT'', None, Some 5, Some 0)" 2 "[''ID'']"]
  by (simp add: lower_def lower_char_def)





text \<open>
  C7 (amended). For a char or varchar column whose \<open>character_maximum_length\<close> is
  an integer \<open>n\<close>, \<open>_for_column\<close> returns a fragment of type
  \<open>["null", "string"]\<close> that has maxLength \<open>n\<close> exactly when \<open>n > 0\<close>; when the
  length is \<open>None\<close> the comparison \<open>None > 0\<close> raises \<open>TypeError\<close> and no
  fragment is returned.
\<close>

theorem for_column_string:
  assumes "lower (data_type col) \<in> {''char'', ''varchar''}"
  shows "case character_maximum_length col of
           None \<Rightarrow> for_column col pk_columns = Inl TypeError
         | Some n \<Rightarrow>
             (\<exists>frag. for_column col pk_columns = Inr frag \<and>
                type frag = Some (TList [''null'', ''string'']) \<and>
                maxLength frag = (if n > 0 then Some n else None))"
proof -
  from assms have "lower (data_type col) \<in> STRING_TYPES"
    by (simp add: STRING_TYPES_def)
  then show ?thesis
    by (simp add: for_column_string_eq Schema_init_def split: option.split)
qed

text \<open>
  Scenario 4 of the specification (length 0, no maxLength), and a positive length.
\<close>

theorem for_column_string_witness:
  "(\<exists>frag. for_column (mk_Column (''S'', ''T'', ''NAME'', ''VARCHAR'', Some 0, None, None)) [] = Inr frag \<and>
      type frag = Some (TList [''null'', ''string'']) \<and> maxLength frag = None) \<and>
   (\<exists>frag. for_column (mk_Column (''S'', ''T'', ''NAME'', ''Char'', Some 12, None, None)) [] = Inr frag \<and>
      type frag = Some (TList [''null'', ''string'']) \<and> maxLength frag = Some 12)"
  using for_column_string[of "mk_Column (''S'', ''T'', ''NAME'', ''VARCHAR'', Some 0, None, None)" "[]"]
    for_column_string[of "mk_Column (''S'', ''T'', ''NAME'', ''Char'', Some 12, None, None)" "[]"]
  by (simp add: lower_def lower_char_def)

text \<open>
  The length is an optional integer; for a varchar column without one the mapper
  raises instead of returning a fragment.
\<close>

theorem for_column_string_counterexample:
  "lower (data_type (mk_Column (''S'', ''T'', ''NAME'', ''VARCHAR'', None, None, None))) = ''varchar'' \<and>
   for_column (mk_Column (''S'', ''T'', ''NAME'', ''VARCHAR'', None, None, None)) [] = Inl TypeError"
  by (simp add: for_column_def lower_def lower_char_def type_tables)


section \<open>Claims about the Reconciler\<close>

lemma key_rows_Nil [simp]: "key_rows [] k = []"
  by (simp add: key_rows_def)

lemma key_rows_Cons:
  "key_rows ((s, n, c, pos) # rows) k =
     (if (s, n) = k then (pos, c) # key_rows rows k else key_rows rows k)"
  by (simp add: key_rows_def)

lemma collect_keys_lookup:
  "map_of (collect_keys rows tables keys) k =
     (if map_of tables k = None then map_of keys k
      else (case map_of keys k of
              None \<Rightarrow> (if key_rows rows k = [] then None else Some (key_rows rows k))
            | Some v \<Rightarrow> Some (v @ key_rows rows k)))"
proof (induction rows tables keys rule: collect_keys.induct)
  case (1 tables keys)
  then show ?case by (simp split: option.split)
next
  case (2 s n cname ordinal_pos results tables keys)
  show ?case
  proof (cases "map_of tables (s, n) = None")
    case True
    with 2(1) show ?thesis
      by (auto simp: key_rows_Cons split: option.split)
  next
    case known: False
    show ?thesis
    proof (cases "map_of keys (s, n)")
      case None
      with known 2(2)[OF known None] show ?thesis
        by (auto simp: key_rows_Cons update_conv' split: option.split)
    next
      case (Some v)
      with known 2(3)[OF known Some] show ?thesis
        by (auto simp: key_rows_Cons update_conv' split: option.split)
    qed
  qed
qed

lemma collect_keys_distinct:
  "distinct (map fst keys) \<Longrightarrow> distinct (map fst (collect_keys rows tables keys))"
  by (induction rows tables keys rule: collect_keys.induct)
     (auto simp: distinct_update split: option.split)

lemma find_primary_keys_lookup:
  "map_of (find_primary_keys cfg tables) k =
     (if map_of tables k = None \<or> key_rows (query_primary_keys cfg) k = [] then None
      else Some (map snd (sort (key_rows (query_primary_keys cfg) k))))"
  unfolding find_primary_keys_def
  by (simp add: map_of_map collect_keys_lookup)

lemma find_primary_keys_distinct: "distinct (map fst (find_primary_keys cfg tables))"
proof -
  have "map fst (find_primary_keys cfg tables) =
        map fst (collect_keys (query_primary_keys cfg) tables [])"
    unfolding find_primary_keys_def by (simp add: case_prod_beta comp_def)
  then show ?thesis by (simp add: collect_keys_distinct)
qed

lemma sorted_fst_of_sorted:
  fixes ps :: "(int \<times> string) list"
  assumes "sorted ps"
  shows "sorted (map fst ps)"
  using assms
  by (rule sorted_wrt_map_mono) (auto simp: less_eq_prod_def)

lemma key_rows_mset:
  assumes "mset rows = mset rows'"
  shows "mset (key_rows rows k) = mset (key_rows rows' k)"
proof -
  have "mset (key_rows r k) =
        image_mset (\<lambda>(s, n, c, pos). (pos, c)) (filter_mset (\<lambda>(s, n, c, pos). (s, n) = k) (mset r))"
    for r
    by (simp add: key_rows_def)
  with assms show ?thesis by simp
qed

lemma lex_le_pair:
  fixes p q :: "int \<times> string"
  shows "p \<le> q \<Longrightarrow> fst p < fst q \<or> (fst p = fst q \<and> snd p \<le> snd q)"
  by (auto simp: less_eq_prod_def)

text \<open>
  C8. \<open>_find_primary_keys\<close> returns a dict with one key per table that is in
  the table map and has at least one primary-key row; rows of other tables are
  dropped. The value for a table is the list of its key column names, obtained
  from its rows arranged in ascending order of ordinal position, the positions
  themselves being discarded.
\<close>

theorem find_primary_keys_by_ordinal:
  "distinct (map fst (find_primary_keys cfg tables)) \<and>
   (case map_of (find_primary_keys cfg tables) k of
      None \<Rightarrow> map_of tables k = None \<or> key_rows (query_primary_keys cfg) k = []
    | Some names \<Rightarrow>
        map_of tables k \<noteq> None \<and> key_rows (query_primary_keys cfg) k \<noteq> [] \<and>
        (\<exists>ps. mset ps = mset (key_rows (query_primary_keys cfg) k) \<and>
              sorted (map fst ps) \<and> names = map snd ps))"
proof -
  have "\<exists>ps. mset ps = mset (key_rows (query_primary_keys cfg) k) \<and> sorted (map fst ps) \<and>
          map snd (sort (key_rows (query_primary_keys cfg) k)) = map snd ps"
    by (rule exI[of _ "sort (key_rows (query_primary_keys cfg) k)"])
       (simp add: sorted_fst_of_sorted)
  then show ?thesis
    by (simp add: find_primary_keys_lookup find_primary_keys_distinct)
qed

theorem find_primary_keys_by_ordinal_witness:
  "find_primary_keys
     \<lparr>query_tables = [(''S'', ''A'', ''T'')], query_columns = [],
      query_primary_keys =
        [(''S'', ''A'', ''Z'', 2), (''X'', ''Y'', ''Q'', 1), (''S'', ''A'', ''X'', 1)]\<rparr>
     [((''S'', ''A''), mk_Table (''S'', ''A'', ''T''))] = [((''S'', ''A''), [''X'', ''Z''])] \<and>
   (\<exists>ps. mset ps = {#(2::int, ''Z''), (1, ''X'')#} \<and> sorted (map fst ps) \<and> [''X'', ''Z''] = map snd ps)"
  using find_primary_keys_by_ordinal
    [of "\<lparr>query_tables = [(''S'', ''A'', ''T'')], query_columns = [],
      query_primary_keys =
        [(''S'', ''A'', ''Z'', 2), (''X'', ''Y'', ''Q'', 1), (''S'', ''A'', ''X'', 1)]\<rparr>"
        "[((''S'', ''A''), mk_Table (''S'', ''A'', ''T''))]" "(''S'', ''A'')"]
  by (simp add: find_primary_keys_def key_rows_def)

text \<open>
  C10. Rows of a table are sorted as pairs (ordinal position, column name), so rows
  that share an ordinal position are ordered by ascending column name. Hence the
  key list of each table is determined by the rows alone: it does not even depend
  on the order in which the query delivers them.
\<close>

theorem find_primary_keys_deterministic:
  "(\<forall>names. map_of (find_primary_keys cfg tables) k = Some names \<longrightarrow>
      (\<exists>ps. mset ps = mset (key_rows (query_primary_keys cfg) k) \<and> names = map snd ps \<and>
         (\<forall>i j. i < j \<and> j < length ps \<longrightarrow>
            fst (ps ! i) < fst (ps ! j) \<or>
            (fst (ps ! i) = fst (ps ! j) \<and> snd (ps ! i) \<le> snd (ps ! j))))) \<and>
   (\<forall>cfg'. mset (query_primary_keys cfg') = mset (query_primary_keys cfg) \<longrightarrow>
      map_of (find_primary_keys cfg' tables) k = map_of (find_primary_keys cfg tables) k)"
proof (intro conjI allI impI)
  fix names
  assume "map_of (find_primary_keys cfg tables) k = Some names"
  then have names: "names = map snd (sort (key_rows (query_primary_keys cfg) k))"
    by (simp add: find_primary_keys_lookup split: if_splits)
  let ?ps = "sort (key_rows (query_primary_keys cfg) k)"
  have "fst (?ps ! i) < fst (?ps ! j) \<or>
          (fst (?ps ! i) = fst (?ps ! j) \<and> snd (?ps ! i) \<le> snd (?ps ! j))"
    if "i < j \<and> j < length ?ps" for i j
  proof -
    from that have "?ps ! i \<le> ?ps ! j"
      by (intro sorted_nth_mono) simp_all
    then show ?thesis by (rule lex_le_pair)
  qed
  then have "\<forall>i j. i < j \<and> j < length ?ps \<longrightarrow>
            fst (?ps ! i) < fst (?ps ! j) \<or>
            (fst (?ps ! i) = fst (?ps ! j) \<and> snd (?ps ! i) \<le> snd (?ps ! j))"
    by blast
  with names show "\<exists>ps. mset ps = mset (key_rows (query_primary_keys cfg) k) \<and> names = map snd ps \<and>
         (\<forall>i j. i < j \<and> j < length ps \<longrightarrow>
            fst (ps ! i) < fst (ps ! j) \<or>
            (fst (ps ! i) = fst (ps ! j) \<and> snd (ps ! i) \<le> snd (ps ! j)))"
    by (intro exI[of _ ?ps]) simp
next
  fix cfg' :: config
  assume "mset (query_primary_keys cfg') = mset (query_primary_keys cfg)"
  then have m: "mset (key_rows (query_primary_keys cfg') k) = mset (key_rows (query_primary_keys cfg) k)"
    by (rule key_rows_mset)
  then have "sort (key_rows (query_primary_keys cfg') k) = sort (key_rows (query_primary_keys cfg) k)"
    by (intro properties_for_sort) simp_all
  moreover from m have "key_rows (query_primary_keys cfg') k = [] \<longleftrightarrow> key_rows (query_primary_keys cfg) k = []"
    by (metis mset_zero_iff)
  ultimately show "map_of (find_primary_keys cfg' tables) k = map_of (find_primary_keys cfg tables) k"
    by (simp add: find_primary_keys_lookup)
qed

theorem find_primary_keys_deterministic_witness:
  "find_primary_keys
     \<lparr>query_tables = [(''S'', ''A'', ''T'')], query_columns = [],
      query_primary_keys = [(''S'', ''A'', ''ZIP'', 1), (''S'', ''A'', ''CITY'', 1), (''S'', ''A'', ''ID'', 0)]\<rparr>
     [((''S'', ''A''), mk_Table (''S'', ''A'', ''T''))] = [((''S'', ''A''), [''ID'', ''CITY'', ''ZIP''])] \<and>
   map_of (find_primary_keys
     \<lparr>query_tables = [(''S'', ''A'', ''T'')], query_columns = [],
      query_primary_keys = [(''S'', ''A'', ''CITY'', 1), (''S'', ''A'', ''ID'', 0), (''S'', ''A'', ''ZIP'', 1)]\<rparr>
     [((''S'', ''A''), mk_Table (''S'', ''A'', ''T''))]) (''S'', ''A'') = Some [''ID'', ''CITY'', ''ZIP'']"
  using find_primary_keys_deterministic
    [of "\<lparr>query_tables = [(''S'', ''A'', ''T'')], query_columns = [],
      query_primary_keys = [(''S'', ''A'', ''ZIP'', 1), (''S'', ''A'', ''CITY'', 1), (''S'', ''A'', ''ID'', 0)]\<rparr>"
      "[((''S'', ''A''), mk_Table (''S'', ''A'', ''T''))]" "(''S'', ''A'')"]
  by (simp add: find_primary_keys_def)


section \<open>Claims about the Entry Assembler\<close>

lemmas eval_defs =
  discover_with_def find_tables_def find_columns_def find_primary_keys_def table_id_def
  generate_def for_column_def Let_def type_tables lower_def lower_char_def
  update_entry_for_table_type_def








lemma column_metadata_loop_raises:
  "\<exists>e. column_metadata_loop (c # cs) sch m = Inl e"
  by (simp add: Column_getattr_def split: option.split)

lemma create_column_metadata_raises:
  "cols \<noteq> [] \<Longrightarrow> \<exists>e. create_column_metadata cols sch = Inl e"
proof (cases cols)
  case Nil
  then show "cols \<noteq> [] \<Longrightarrow> ?thesis" by simp
next
  case (Cons c cs)
  obtain e where "column_metadata_loop (c # cs) sch (md_write [] [] ''selected-by-default'' (MBool False)) = Inl e"
    using column_metadata_loop_raises by blast
  then show ?thesis by (simp add: create_column_metadata_def Cons)
qed

lemma create_column_metadata_empty:
  "create_column_metadata [] sch = Inr [([], [(''selected-by-default'', MBool False)])]"
  by (simp add: create_column_metadata_def md_write_def to_list_def)

lemma discover_raises:
  assumes "find_columns cfg (find_tables cfg) \<noteq> []"
  shows "\<exists>e. discover cfg = Inl e"
proof -
  from assms obtain c cs where cols: "find_columns cfg (find_tables cfg) = c # cs"
    by (cases "find_columns cfg (find_tables cfg)") auto
  have "create_column_metadata (c # g) sch \<noteq> Inr r" for g sch r
    using create_column_metadata_raises[of "c # g" sch] by auto
  then show ?thesis
    unfolding discover_def discover_with_def Let_def cols
    by (auto split: sum.split option.split)
qed

text \<open>
  C9. \<open>_update_entry_for_table_type\<close> sets \<open>is_view\<close> to whether the table type
  is \<open>"V"\<close>. For the types \<open>"T"\<close> and \<open>"V"\<close> the entry's schema (its inclusion
  and description with it) is left as it was. For any other type the schema's
  inclusion becomes unsupported and its description a non-empty text that names
  the type code and a hint: Alias, Logical file, Materialized query table or
  Physical file for the codes A, L, M and P, and Unknown otherwise.
\<close>

theorem update_entry_for_table_type_policy:
  "is_view (update_entry_for_table_type e ty) = Some (ty = ''V'') \<and>
   (ty \<in> {''T'', ''V''} \<longrightarrow> schema (update_entry_for_table_type e ty) = schema e) \<and>
   (ty \<notin> {''T'', ''V''} \<longrightarrow>
      inclusion (schema (update_entry_for_table_type e ty)) = Some ''unsupported'' \<and>
      description (schema (update_entry_for_table_type e ty)) =
        Some (''Unsupported table type '' @ ty @ '' ('' @
              (if ty = ''A'' then ''Alias''
               else if ty = ''L'' then ''Logical file''
               else if ty = ''M'' then ''Materialized query table''
               else if ty = ''P'' then ''Physical file''
               else ''Unknown'') @ '')'') \<and>
      description (schema (update_entry_for_table_type e ty)) \<noteq> Some [] \<and>
      description (schema (update_entry_for_table_type e ty)) \<noteq> None)"
  by (simp add: update_entry_for_table_type_def Let_def known_types_def)

text \<open>
  Scenario 3 of the specification (type \<open>"L"\<close>), and a view.
\<close>

theorem update_entry_for_table_type_policy_witness:
  "is_view (update_entry_for_table_type
      \<lparr>database = ''S'', table = ''T'', stream = ''T'', metadata = [], tap_stream_id = ''S-T'',
       schema = Schema_init\<lparr>type := Some (TStr ''object''), properties := Some []\<rparr>,
       key_properties = None, is_view = None\<rparr> ''L'') = Some False \<and>
   inclusion (schema (update_entry_for_table_type
      \<lparr>database = ''S'', table = ''T'', stream = ''T'', metadata = [], tap_stream_id = ''S-T'',
       schema = Schema_init\<lparr>type := Some (TStr ''object''), properties := Some []\<rparr>,
       key_properties = None, is_view = None\<rparr> ''L'')) = Some ''unsupported'' \<and>
   description (schema (update_entry_for_table_type
      \<lparr>database = ''S'', table = ''T'', stream = ''T'', metadata = [], tap_stream_id = ''S-T'',
       schema = Schema_init\<lparr>type := Some (TStr ''object''), properties := Some []\<rparr>,
       key_properties = None, is_view = None\<rparr> ''L'')) =
     Some ''Unsupported table type L (Logical file)'' \<and>
   schema (update_entry_for_table_type
      \<lparr>database = ''S'', table = ''T'', stream = ''T'', metadata = [], tap_stream_id = ''S-T'',
       schema = Schema_init\<lparr>type := Some (TStr ''object''), properties := Some []\<rparr>,
       key_properties = None, is_view = None\<rparr> ''V'') =
     Schema_init\<lparr>type := Some (TStr ''object''), properties := Some []\<rparr>"
  using update_entry_for_table_type_policy
    [of "\<lparr>database = ''S'', table = ''T'', stream = ''T'', metadata = [], tap_stream_id = ''S-T'',
       schema = Schema_init\<lparr>type := Some (TStr ''object''), properties := Some []\<rparr>,
       key_properties = None, is_view = None\<rparr>" "''L''"]
    update_entry_for_table_type_policy
    [of "\<lparr>database = ''S'', table = ''T'', stream = ''T'', metadata = [], tap_stream_id = ''S-T'',
       schema = Schema_init\<lparr>type := Some (TStr ''object''), properties := Some []\<rparr>,
       key_properties = None, is_view = None\<rparr>" "''V''"]
  by simp




text \<open>
  C2. The metadata built for a table group should hold the table-level
  selected-by-default (false), and per column its selected-by-default and its
  lower-cased native type under sql-datatype. The code reads the native type as
  \<open>col.column_type\<close>, a field \<open>Column\<close> does not have (the field is
  \<open>data_type\<close>), so for a group with a column it raises \<open>AttributeError\<close> and
  builds no metadata.
\<close>

theorem create_column_metadata_attribute_error:
  "\<exists>sch. generate [mk_Column (''S'', ''T'', ''ID'', ''SMALLINT'', None, Some 5, Some 0)] [''ID''] = Inr sch \<and>
     create_column_metadata [mk_Column (''S'', ''T'', ''ID'', ''SMALLINT'', None, Some 5, Some 0)] sch =
       Inl AttributeError"
  by (simp add: generate_def for_column_def Let_def type_tables lower_def lower_char_def
        create_column_metadata_def Column_getattr_def)

text \<open>
  C6. A column of an unrecognized native type is mapped to the unsupported
  fragment and the mapper does not raise, but \<open>discover\<close> on a catalog with such
  a column still ends with the \<open>AttributeError\<close> of its metadata step.
\<close>

theorem discover_aborts_on_unsupported_column:
  "for_column (mk_Column (''S'', ''T'', ''DOC'', ''BLOB'', None, None, None)) [] =
     Inr (Schema_init\<lparr>inclusion := Some ''unsupported'',
            description := Some ''Unsupported data type blob''\<rparr>) \<and>
   discover
     \<lparr>query_tables = [(''S'', ''T'', ''T'')],
      query_columns = [(''S'', ''T'', ''DOC'', ''BLOB'', None, None, None)],
      query_primary_keys = []\<rparr> = Inl AttributeError"
  by (simp add: eval_defs discover_def create_column_metadata_def Column_getattr_def)

end
